theory Spec2Isabelle
  imports Main "HOL-Library.Word"
begin

unbundle bit_operations_syntax

section \<open>Wakers (sleep/sleep_unsafe.go)\<close>

text \<open>
  The pointer stored in \<open>Waker.s\<close> is \<open>nil\<close>, the address of the package-level sentinel
  \<open>assertedSleeper\<close>, or the address of a caller's sleeper; the pointers of a sleeper's lists
  are \<open>nil\<close>, the address of \<open>sentinelWaker\<close>, or the address of a waker. Objects live in
  a store indexed by address. The field \<open>waitingG\<close> is a \<open>uintptr\<close>; \<open>goready\<close> belongs to the
  runtime, and the model records its calls in \<open>readied\<close>.

  Every function below executes its atomic operations one after the other with no step of
  another goroutine in between.
\<close>

datatype sleeper_ptr = SNil | AssertedSleeper | SleeperAt nat
datatype waker_ptr = WNil | SentinelWaker | WakerAt nat

record Waker =
  w_s :: sleeper_ptr
  w_next :: waker_ptr
  w_id :: int

record Sleeper =
  sharedList :: waker_ptr
  localList :: waker_ptr
  waitingG :: nat

record sleep_heap =
  wakers :: "nat \<Rightarrow> Waker"
  sleepers :: "nat \<Rightarrow> Sleeper"
  readied :: "nat list"

definition preparingG :: nat where
  "preparingG = 1"

definition LoadPointer_s :: "nat \<Rightarrow> sleep_heap \<Rightarrow> sleeper_ptr" where
  "LoadPointer_s w h = w_s (wakers h w)"

definition SwapPointer_s :: "nat \<Rightarrow> sleeper_ptr \<Rightarrow> sleep_heap \<Rightarrow> sleeper_ptr \<times> sleep_heap" where
  "SwapPointer_s w new h =
     (w_s (wakers h w), h\<lparr>wakers := (wakers h)(w := (wakers h w)\<lparr>w_s := new\<rparr>)\<rparr>)"

definition CompareAndSwapPointer_s ::
  "nat \<Rightarrow> sleeper_ptr \<Rightarrow> sleeper_ptr \<Rightarrow> sleep_heap \<Rightarrow> bool \<times> sleep_heap" where
  "CompareAndSwapPointer_s w old new h =
     (if w_s (wakers h w) = old
      then (True, h\<lparr>wakers := (wakers h)(w := (wakers h w)\<lparr>w_s := new\<rparr>)\<rparr>)
      else (False, h))"

definition CompareAndSwapPointer_sharedList ::
  "nat \<Rightarrow> waker_ptr \<Rightarrow> waker_ptr \<Rightarrow> sleep_heap \<Rightarrow> bool \<times> sleep_heap" where
  "CompareAndSwapPointer_sharedList s old new h =
     (if sharedList (sleepers h s) = old
      then (True, h\<lparr>sleepers := (sleepers h)(s := (sleepers h s)\<lparr>sharedList := new\<rparr>)\<rparr>)
      else (False, h))"

definition CompareAndSwapUintptr_waitingG ::
  "nat \<Rightarrow> nat \<Rightarrow> nat \<Rightarrow> sleep_heap \<Rightarrow> bool \<times> sleep_heap" where
  "CompareAndSwapUintptr_waitingG s old new h =
     (if waitingG (sleepers h s) = old
      then (True, h\<lparr>sleepers := (sleepers h)(s := (sleepers h s)\<lparr>waitingG := new\<rparr>)\<rparr>)
      else (False, h))"

definition goready :: "nat \<Rightarrow> sleep_heap \<Rightarrow> sleep_heap" where
  "goready g h = h\<lparr>readied := readied h @ [g]\<rparr>"

text \<open>
  The first loop of \<open>enqueueAssertedWaker\<close>: push the waker on the front of the shared
  list. The result is \<open>False\<close> when the sleeper is done (the function returns at once) and
  \<open>True\<close> after the \<open>break\<close>.
\<close>

function enqueueAssertedWaker_push :: "nat \<Rightarrow> nat \<Rightarrow> sleep_heap \<Rightarrow> bool \<times> sleep_heap" where
  "enqueueAssertedWaker_push s w h =
     (let v = sharedList (sleepers h s) in
      if v = SentinelWaker then (False, h)
      else
        let h1 = h\<lparr>wakers := (wakers h)(w := (wakers h w)\<lparr>w_next := v\<rparr>)\<rparr> in
        case CompareAndSwapPointer_sharedList s v (WakerAt w) h1 of
          (ok, h2) \<Rightarrow> if ok then (True, h2) else enqueueAssertedWaker_push s w h2)"
  by pat_completeness auto
termination
  apply (relation "{}")
   apply simp
  apply (auto simp: CompareAndSwapPointer_sharedList_def Let_def split: if_splits)
  done

text \<open>The second loop of \<open>enqueueAssertedWaker\<close>: wake the sleeping goroutine, if any.\<close>

function enqueueAssertedWaker_wake :: "nat \<Rightarrow> sleep_heap \<Rightarrow> sleep_heap" where
  "enqueueAssertedWaker_wake s h =
     (let g = waitingG (sleepers h s) in
      if g = 0 then h
      else
        case CompareAndSwapUintptr_waitingG s g 0 h of
          (ok, h1) \<Rightarrow>
            enqueueAssertedWaker_wake s (if ok \<and> g \<noteq> preparingG then goready g h1 else h1))"
  by pat_completeness auto
termination
  apply (relation "measure (\<lambda>(s, h). waitingG (sleepers h s))")
   apply simp
  apply (auto simp: CompareAndSwapUintptr_waitingG_def goready_def Let_def split: if_splits)
  done

declare enqueueAssertedWaker_push.simps [simp del]
declare enqueueAssertedWaker_wake.simps [simp del]

definition enqueueAssertedWaker :: "nat \<Rightarrow> nat \<Rightarrow> sleep_heap \<Rightarrow> sleep_heap" where
  "enqueueAssertedWaker s w h =
     (case enqueueAssertedWaker_push s w h of
        (pushed, h1) \<Rightarrow> if pushed then enqueueAssertedWaker_wake s h1 else h1)"

definition Assert :: "nat \<Rightarrow> sleep_heap \<Rightarrow> sleep_heap" where
  "Assert w h =
     (if LoadPointer_s w h = AssertedSleeper then h
      else
        case SwapPointer_s w AssertedSleeper h of
          (s, h1) \<Rightarrow>
            (case s of
               SNil \<Rightarrow> h1
             | AssertedSleeper \<Rightarrow> h1
             | SleeperAt a \<Rightarrow> enqueueAssertedWaker a w h1))"

definition Clear :: "nat \<Rightarrow> sleep_heap \<Rightarrow> bool \<times> sleep_heap" where
  "Clear w h =
     (if LoadPointer_s w h \<noteq> AssertedSleeper then (False, h)
      else CompareAndSwapPointer_s w AssertedSleeper SNil h)"

definition IsAsserted :: "nat \<Rightarrow> sleep_heap \<Rightarrow> bool" where
  "IsAsserted w h = (LoadPointer_s w h = AssertedSleeper)"

section \<open>TCP handshake and protocol driver (tcpip/transport/tcp/connect.go)\<close>

subsection \<open>Basic types and constants\<close>

text \<open>
  \<open>seqnum.Value\<close> and \<open>seqnum.Size\<close> are \<open>uint32\<close>; Go's \<open>int\<close> is modelled as
  \<open>int\<close> (the values stored in it here are window scales between -1 and 255).
\<close>

type_synonym seqnum_Value = "32 word"
type_synonym seqnum_Size = "32 word"

definition maxSegmentsPerWake :: nat where
  "maxSegmentsPerWake = 100"

definition maxWndScale :: int where
  "maxWndScale = 14"

subsection \<open>findWndScale\<close>

text \<open>
  The loop \<open>for wnd > max && s < maxWndScale { s++; max <<= 1 }\<close>; \<open>max\<close> is a
  \<open>seqnum.Size\<close>, so the shift is a 32-bit shift.
\<close>

function findWndScale_loop :: "seqnum_Size \<Rightarrow> seqnum_Size \<Rightarrow> int \<Rightarrow> int" where
  "findWndScale_loop wnd mx s =
     (if wnd > mx \<and> s < maxWndScale
      then findWndScale_loop wnd (push_bit 1 mx) (s + 1)
      else s)"
  by pat_completeness auto
termination
  by (relation "measure (\<lambda>(wnd, mx, s). nat (maxWndScale - s))") auto

declare findWndScale_loop.simps [simp del]

definition findWndScale :: "seqnum_Size \<Rightarrow> int" where
  "findWndScale wnd =
     (if wnd < 0x10000 then 0
      else findWndScale_loop wnd 0xffff 0)"

subsection \<open>Segments\<close>

text \<open>
  Modelled from the spec: the segment type, the flag constants, \<open>flagIsSet\<close> and
  \<open>logicalLen\<close> are declared in segment.go, which is not among the sources. The flags are
  the control bits of the TCP header (RFC 793); the logical length is the payload length plus
  one for each of SYN and FIN. \<open>dataSize\<close> stands for \<open>s.data.Size()\<close>.
\<close>

definition flagFin :: "8 word" where "flagFin = 1"
definition flagSyn :: "8 word" where "flagSyn = 2"
definition flagRst :: "8 word" where "flagRst = 4"
definition flagPsh :: "8 word" where "flagPsh = 8"
definition flagAck :: "8 word" where "flagAck = 16"
definition flagUrg :: "8 word" where "flagUrg = 32"

record segment =
  s_flags :: "8 word"
  sequenceNumber :: seqnum_Value
  ackNumber :: seqnum_Value
  window :: seqnum_Size
  options :: "8 word list"
  dataSize :: nat

definition flagIsSet :: "segment \<Rightarrow> 8 word \<Rightarrow> bool" where
  "flagIsSet s f = (s_flags s AND f \<noteq> 0)"

definition logicalLen :: "segment \<Rightarrow> seqnum_Size" where
  "logicalLen s =
     of_nat (dataSize s)
       + (if flagIsSet s flagSyn then 1 else 0)
       + (if flagIsSet s flagFin then 1 else 0)"

text \<open>
  Modelled from the spec: the seqnum package is not among the sources. \<open>Add\<close> is addition
  modulo \<open>2 ^ 32\<close>; \<open>InWindow\<close> is the modular window test
  \<open>v \<in> [first, first + size)\<close>.
\<close>

definition seqnum_Add :: "seqnum_Value \<Rightarrow> seqnum_Size \<Rightarrow> seqnum_Value" where
  "seqnum_Add v n = v + n"

definition InWindow :: "seqnum_Value \<Rightarrow> seqnum_Value \<Rightarrow> seqnum_Size \<Rightarrow> bool" where
  "InWindow v first sz = (v - first < sz)"

text \<open>
  Modelled from the spec: the option kinds of the header package, which is not among the
  sources (EOL and NOP are kinds 0 and 1 of RFC 793; MSS is kind 2, window scale kind 3).
\<close>

definition TCPOptionEOL :: "8 word" where "TCPOptionEOL = 0"
definition TCPOptionNOP :: "8 word" where "TCPOptionNOP = 1"
definition TCPOptionMSS :: "8 word" where "TCPOptionMSS = 2"
definition TCPOptionWS :: "8 word" where "TCPOptionWS = 3"

subsection \<open>Errors and the environment\<close>

text \<open>
  The values of Go's \<open>error\<close> that connect.go returns: the errors of package tcpip, and
  the error of a failed \<open>rand.Read\<close>.
\<close>

datatype error =
    ErrConnectionRefused
  | ErrInvalidEndpointState
  | ErrTimeout
  | ErrAborted
  | ErrConnectionReset
  | ErrConnectionAborted
  | ErrRandRead

text \<open>An index out of range is a run-time panic in Go.\<close>

datatype panic = IndexOutOfRange

text \<open>The outcome of one call \<open>rand.Read(b)\<close> on a four-byte slice.\<close>

datatype rand_result = RandFailed | RandBytes "8 word" "8 word" "8 word" "8 word"

text \<open>
  What the endpoint hands to the network: the calls of \<open>sendRaw\<close> (always with
  \<open>data = nil\<close> in this file) and of \<open>sendSynTCP\<close>, with their arguments. Below these
  calls \<open>sendTCP\<close> and \<open>sendTCPWithOptions\<close> encode the header for the route, which is
  outside the sources; the encoder stores the window in 16 bits, clamped to \<open>0xffff\<close>.
\<close>

datatype tx =
    SendRaw "8 word" seqnum_Value seqnum_Value seqnum_Size
  | SendSynTCP "8 word" seqnum_Value seqnum_Value seqnum_Size int

text \<open>
  Modelled from the spec: the endpoint, sender and receiver types are declared in
  endpoint.go, snd.go and rcv.go, which are not among the sources. The records hold the fields
  that connect.go reads and writes; \<open>engine\<close> is the remaining private state of the
  sender and the receiver. The states are those of the spec's state enum. \<open>randSource\<close> lists
  the outcomes of the calls of \<open>rand.Read\<close> still to come (an exhausted source fails), and
  \<open>sent\<close> the segments handed to the network so far. The wakers live in \<open>sleepHeap\<close>;
  \<open>newSegmentWaker\<close> is the address of the endpoint's waker there.
\<close>

datatype endpointState =
    stateInitial | stateConnecting | stateConnected | stateClosing | stateClosed | stateError

record sender =
  snd_closed :: bool
  writeList :: "segment list"
  writeNext :: "segment option"
  sndNxtList :: seqnum_Value
  sndUna :: seqnum_Value
  maxSentAck :: seqnum_Value
  snd_sndWndScale :: "8 word"

record receiver =
  rcv_closed :: bool
  rcvNxt :: seqnum_Value
  pendingBufSize :: seqnum_Size

record 'x endpoint =
  ep_state :: endpointState
  hardError :: "error option"
  segmentQueue :: "segment list"
  sndQueue :: "segment list"
  sndBufInQueue :: seqnum_Size
  ep_snd :: sender
  ep_rcv :: receiver
  engine :: 'x
  sleepHeap :: sleep_heap
  newSegmentWaker :: nat
  randSource :: "rand_result list"
  sent :: "tx list"

definition rand_Read :: "'x endpoint \<Rightarrow> rand_result \<times> 'x endpoint" where
  "rand_Read ep =
     (case randSource ep of
        [] \<Rightarrow> (RandFailed, ep)
      | r # rs \<Rightarrow> (r, ep\<lparr>randSource := rs\<rparr>))"

definition sendRaw ::
  "8 word \<Rightarrow> seqnum_Value \<Rightarrow> seqnum_Value \<Rightarrow> seqnum_Size \<Rightarrow> 'x endpoint \<Rightarrow> 'x endpoint" where
  "sendRaw fl sq ack wnd ep = ep\<lparr>sent := sent ep @ [SendRaw fl sq ack wnd]\<rparr>"

definition sendSynTCP ::
  "8 word \<Rightarrow> seqnum_Value \<Rightarrow> seqnum_Value \<Rightarrow> seqnum_Size \<Rightarrow> int \<Rightarrow> 'x endpoint \<Rightarrow> 'x endpoint" where
  "sendSynTCP fl sq ack wnd ws ep = ep\<lparr>sent := sent ep @ [SendSynTCP fl sq ack wnd ws]\<rparr>"

subsection \<open>The handshake\<close>

datatype handshakeState = handshakeSynSent | handshakeSynRcvd | handshakeCompleted

record handshake =
  state :: handshakeState
  active :: bool
  flags :: "8 word"
  ackNum :: seqnum_Value
  iss :: seqnum_Value
  rcvWnd :: seqnum_Size
  sndWnd :: seqnum_Size
  mss :: "16 word"
  sndWndScale :: int
  rcvWndScale :: int

text \<open>
  \<open>resetState\<close> draws four random bytes through the endpoint's environment and returns
  the error of \<open>rand.Read\<close> when it fails.
\<close>

definition resetState :: "handshake \<Rightarrow> 'x endpoint \<Rightarrow> error option \<times> handshake \<times> 'x endpoint" where
  "resetState h ep =
     (case rand_Read ep of
        (RandFailed, ep1) \<Rightarrow> (Some ErrRandRead, h, ep1)
      | (RandBytes b0 b1 b2 b3, ep1) \<Rightarrow>
          (None,
           h\<lparr>state := handshakeSynSent,
             flags := flagSyn,
             ackNum := 0,
             mss := 0,
             iss := ucast b0 OR push_bit 8 (ucast b1) OR push_bit 16 (ucast b2)
                      OR push_bit 24 (ucast b3)\<rparr>,
           ep1))"

text \<open>
  The zero value of a Go struct has every field zero, so \<open>newHandshake\<close> starts from
  \<open>sndWnd = 0\<close> and \<open>sndWndScale = 0\<close>; on an error it returns the zero handshake.
\<close>

definition zero_handshake :: handshake where
  "zero_handshake =
     \<lparr>state = handshakeSynSent, active = False, flags = 0, ackNum = 0, iss = 0, rcvWnd = 0,
      sndWnd = 0, mss = 0, sndWndScale = 0, rcvWndScale = 0\<rparr>"

definition newHandshake :: "'x endpoint \<Rightarrow> seqnum_Size \<Rightarrow> (error + handshake) \<times> 'x endpoint" where
  "newHandshake ep wnd =
     (let h = zero_handshake\<lparr>active := True, rcvWnd := wnd, rcvWndScale := findWndScale wnd\<rparr>
      in case resetState h ep of
           (Some err, h1, ep1) \<Rightarrow> (Inl err, ep1)
         | (None, h1, ep1) \<Rightarrow> (Inr h1, ep1))"

definition effectiveRcvWndScale :: "handshake \<Rightarrow> 8 word" where
  "effectiveRcvWndScale h =
     (if sndWndScale h < 0 then 0 else word_of_int (rcvWndScale h))"

definition resetToSynRcvd ::
  "seqnum_Value \<Rightarrow> seqnum_Value \<Rightarrow> 16 word \<Rightarrow> int \<Rightarrow> handshake \<Rightarrow> handshake" where
  "resetToSynRcvd iss0 irs mss0 sndWndScale0 h =
     h\<lparr>active := False,
       state := handshakeSynRcvd,
       flags := flagSyn OR flagAck,
       iss := iss0,
       ackNum := irs + 1,
       mss := mss0,
       sndWndScale := sndWndScale0\<rparr>"

definition checkAck :: "segment \<Rightarrow> handshake \<Rightarrow> 'x endpoint \<Rightarrow> bool \<times> 'x endpoint" where
  "checkAck s h ep =
     (if flagIsSet s flagAck \<and> ackNumber s \<noteq> iss h + 1
      then
        (let ack = seqnum_Add (sequenceNumber s) (logicalLen s)
         in (False, sendRaw (flagRst OR flagAck) (ackNumber s) ack 0 ep))
      else (True, ep))"

subsection \<open>parseSynOptions\<close>

text \<open>
  Reading \<open>opts[i]\<close> panics when \<open>i\<close> is not below the length of the slice.
\<close>

definition index :: "8 word list \<Rightarrow> nat \<Rightarrow> panic + 8 word" where
  "index opts i = (if i < length opts then Inr (opts ! i) else Inl IndexOutOfRange)"

text \<open>
  One pass through the body of the loop of \<open>parseSynOptions\<close>, at position \<open>i\<close> with the
  current \<open>mss\<close> and \<open>ws\<close>: the body either returns from the function or goes round the
  loop with new values, unless a read panics.
\<close>

datatype parse_step = Continue nat "16 word" int | Return "16 word" int bool

definition parseSynOptions_body ::
  "8 word list \<Rightarrow> nat \<Rightarrow> 16 word \<Rightarrow> int \<Rightarrow> panic + parse_step" where
  "parseSynOptions_body opts i mss0 ws0 =
     (let limit = length opts in
      case index opts i of
        Inl p \<Rightarrow> Inl p
      | Inr kind \<Rightarrow>
          if kind = TCPOptionEOL then Inr (Continue limit mss0 ws0)
          else if kind = TCPOptionNOP then Inr (Continue (i + 1) mss0 ws0)
          else if kind = TCPOptionMSS then
            (if i + 4 > limit then Inr (Return 0 (-1) False)
             else case index opts (i + 1) of
               Inl p \<Rightarrow> Inl p
             | Inr len \<Rightarrow>
                 if len \<noteq> 4 then Inr (Return 0 (-1) False)
                 else case index opts (i + 2) of
                   Inl p \<Rightarrow> Inl p
                 | Inr hi \<Rightarrow>
                     (case index opts (i + 3) of
                        Inl p \<Rightarrow> Inl p
                      | Inr lo \<Rightarrow>
                          (let mss1 = push_bit 8 (ucast hi) OR ucast lo
                           in if mss1 = 0 then Inr (Return 0 (-1) False)
                              else Inr (Continue (i + 4) mss1 ws0))))
          else if kind = TCPOptionWS then
            (if i + 3 > limit then Inr (Return 0 (-1) False)
             else case index opts (i + 1) of
               Inl p \<Rightarrow> Inl p
             | Inr len \<Rightarrow>
                 if len \<noteq> 3 then Inr (Return 0 (-1) False)
                 else case index opts (i + 2) of
                   Inl p \<Rightarrow> Inl p
                 | Inr v \<Rightarrow>
                     (let ws1 = uint v;
                          ws2 = (if ws1 > maxWndScale then maxWndScale else ws1)
                      in Inr (Continue (i + 3) mss0 ws2)))
          else
            (if i + 2 > limit then Inr (Return 0 (-1) False)
             else case index opts (i + 1) of
               Inl p \<Rightarrow> Inl p
             | Inr len \<Rightarrow>
                 (let l = unat len
                  in if i < 2 \<or> i + l > limit then Inr (Return 0 (-1) False)
                     else Inr (Continue (i + l) mss0 ws0))))"

text \<open>
  The loop \<open>for i := 0; i < limit; { ... }\<close> has no bound on its number of passes, so it is
  a partial function: \<open>None\<close> is a run that never returns.
\<close>

partial_function (option) parseSynOptions_loop ::
  "8 word list \<Rightarrow> nat \<Rightarrow> 16 word \<Rightarrow> int \<Rightarrow> (panic + 16 word \<times> int \<times> bool) option" where
  "parseSynOptions_loop opts i mss0 ws0 =
     (if i < length opts
      then (case parseSynOptions_body opts i mss0 ws0 of
              Inl p \<Rightarrow> Some (Inl p)
            | Inr (Return m w ok) \<Rightarrow> Some (Inr (m, w, ok))
            | Inr (Continue i1 mss1 ws1) \<Rightarrow> parseSynOptions_loop opts i1 mss1 ws1)
      else Some (Inr (mss0, ws0, True)))"

definition parseSynOptions :: "segment \<Rightarrow> (panic + 16 word \<times> int \<times> bool) option" where
  "parseSynOptions s = parseSynOptions_loop (options s) 0 536 (-1)"

text \<open>
  Position \<open>i\<close> of the options holds an option of a kind the parser does not know, at
  offset 2 or later, with its length byte inside the region and equal to 0.
\<close>

definition zero_length_option :: "8 word list \<Rightarrow> nat \<Rightarrow> bool" where
  "zero_length_option opts i \<longleftrightarrow>
     2 \<le> i \<and> i + 2 \<le> length opts
     \<and> opts ! i \<noteq> TCPOptionEOL \<and> opts ! i \<noteq> TCPOptionNOP \<and> opts ! i \<noteq> TCPOptionMSS
     \<and> opts ! i \<noteq> TCPOptionWS \<and> opts ! (i + 1) = 0"

subsection \<open>The states of the handshake\<close>

text \<open>
  \<open>synSentState\<close> calls \<open>parseSynOptions\<close>, so it inherits its outcomes: \<open>None\<close> when
  the parser never returns, \<open>Inl\<close> when it panics.
\<close>

definition synSentState ::
  "segment \<Rightarrow> handshake \<Rightarrow> 'x endpoint \<Rightarrow>
   (panic + error option \<times> handshake \<times> 'x endpoint) option" where
  "synSentState s h ep =
     (if flagIsSet s flagRst then
        (if flagIsSet s flagAck \<and> ackNumber s = iss h + 1
         then Some (Inr (Some ErrConnectionRefused, h, ep))
         else Some (Inr (None, h, ep)))
      else
        case checkAck s h ep of
          (False, ep1) \<Rightarrow> Some (Inr (None, h, ep1))
        | (True, ep1) \<Rightarrow>
            if \<not> flagIsSet s flagSyn then Some (Inr (None, h, ep1))
            else
              (case parseSynOptions s of
                 None \<Rightarrow> None
               | Some (Inl p) \<Rightarrow> Some (Inl p)
               | Some (Inr (mss1, sws, ok)) \<Rightarrow>
                   if \<not> ok then Some (Inr (None, h, ep1))
                   else
                     (let h1 = h\<lparr>ackNum := sequenceNumber s + 1,
                                 flags := flags h OR flagAck,
                                 mss := mss1,
                                 sndWndScale := sws\<rparr>
                      in if flagIsSet s flagAck then
                           (let h2 = h1\<lparr>state := handshakeCompleted\<rparr>
                            in Some (Inr (None, h2,
                                 sendRaw flagAck (iss h2 + 1) (ackNum h2)
                                   (drop_bit (unat (effectiveRcvWndScale h2)) (rcvWnd h2)) ep1)))
                         else
                           (let h2 = h1\<lparr>state := handshakeSynRcvd\<rparr>
                            in Some (Inr (None, h2,
                                 sendSynTCP (flags h2) (iss h2) (ackNum h2) (rcvWnd h2)
                                   (rcvWndScale h2) ep1))))))"

definition synRcvdState ::
  "segment \<Rightarrow> handshake \<Rightarrow> 'x endpoint \<Rightarrow> error option \<times> handshake \<times> 'x endpoint" where
  "synRcvdState s h ep =
     (if flagIsSet s flagRst then
        (if InWindow (sequenceNumber s) (ackNum h) (rcvWnd h)
         then (Some ErrConnectionRefused, h, ep)
         else (None, h, ep))
      else
        case checkAck s h ep of
          (False, ep1) \<Rightarrow> (None, h, ep1)
        | (True, ep1) \<Rightarrow>
            if flagIsSet s flagSyn \<and> sequenceNumber s \<noteq> ackNum h - 1 then
              (let ack = seqnum_Add (sequenceNumber s) (logicalLen s);
                   sq = (if flagIsSet s flagAck then ackNumber s else 0);
                   ep2 = sendRaw (flagRst OR flagAck) sq ack 0 ep1
               in if \<not> active h then (Some ErrInvalidEndpointState, h, ep2)
                  else
                    case resetState h ep2 of
                      (Some err, h1, ep3) \<Rightarrow> (Some err, h1, ep3)
                    | (None, h1, ep3) \<Rightarrow>
                        (None, h1,
                         sendSynTCP (flags h1) (iss h1) (ackNum h1) (rcvWnd h1)
                           (rcvWndScale h1) ep3))
            else if flagIsSet s flagAck then (None, h\<lparr>state := handshakeCompleted\<rparr>, ep1)
            else (None, h, ep1))"

subsection \<open>processSegments\<close>

text \<open>
  The loop \<open>for i := 0; i < maxSegmentsPerWake; i++\<close>, counted by the number of passes
  still allowed. It leaves either through a \<open>return\<close> (\<open>LoopReturn\<close>, with the error
  returned) or through the \<open>break\<close> and the end of the count (\<open>LoopDone\<close>).
\<close>

datatype loop_exit = LoopReturn "error option" | LoopDone

fun processSegments_loop ::
  "nat \<Rightarrow> handshake \<Rightarrow> 'x endpoint \<Rightarrow> (panic + loop_exit \<times> handshake \<times> 'x endpoint) option" where
  "processSegments_loop 0 h ep = Some (Inr (LoopDone, h, ep))"
| "processSegments_loop (Suc n) h ep =
     (case segmentQueue ep of
        [] \<Rightarrow> Some (Inr (LoopReturn None, h, ep))
      | s # q \<Rightarrow>
          (let ep1 = ep\<lparr>segmentQueue := q\<rparr>;
               h1 = h\<lparr>sndWnd := window s\<rparr>;
               h2 = (if \<not> flagIsSet s flagSyn \<and> sndWndScale h1 > 0
                     then h1\<lparr>sndWnd :=
                            push_bit (unat (word_of_int (sndWndScale h1) :: 8 word)) (sndWnd h1)\<rparr>
                     else h1)
           in case (case state h2 of
                      handshakeSynRcvd \<Rightarrow> Some (Inr (synRcvdState s h2 ep1))
                    | handshakeSynSent \<Rightarrow> synSentState s h2 ep1
                    | handshakeCompleted \<Rightarrow> Some (Inr (None, h2, ep1))) of
                None \<Rightarrow> None
              | Some (Inl p) \<Rightarrow> Some (Inl p)
              | Some (Inr (err, h3, ep3)) \<Rightarrow>
                  if err \<noteq> None then Some (Inr (LoopReturn err, h3, ep3))
                  else if state h3 = handshakeCompleted then Some (Inr (LoopDone, h3, ep3))
                  else processSegments_loop n h3 ep3))"

definition processSegments ::
  "handshake \<Rightarrow> 'x endpoint \<Rightarrow> (panic + error option \<times> handshake \<times> 'x endpoint) option" where
  "processSegments h ep =
     (case processSegments_loop maxSegmentsPerWake h ep of
        None \<Rightarrow> None
      | Some (Inl p) \<Rightarrow> Some (Inl p)
      | Some (Inr (LoopReturn err, h1, ep1)) \<Rightarrow> Some (Inr (err, h1, ep1))
      | Some (Inr (LoopDone, h1, ep1)) \<Rightarrow>
          Some (Inr (None, h1,
            if segmentQueue ep1 \<noteq> []
            then ep1\<lparr>sleepHeap := Assert (newSegmentWaker ep1) (sleepHeap ep1)\<rparr>
            else ep1)))"

subsection \<open>execute\<close>

text \<open>
  \<open>s.Fetch(true)\<close> blocks until some waker fires; which one fires, and when, is decided
  by the timer and by other goroutines. The model takes the successive results of
  \<open>Fetch\<close> as a list: a fetched notification wake says whether \<open>notifyClose\<close> is in the
  set that \<open>fetchNotifications\<close> returns, and a new-segment wake brings the segments that
  were queued since the last wake. When the list is used up the goroutine stays parked in
  \<open>Fetch\<close> (\<open>Parked\<close>). The registration of the three wakers with the sleeper and the
  deferred \<open>rt.Stop()\<close> and \<open>s.Done()\<close> have no part in what \<open>execute\<close> returns or sends
  and are left out.

  \<open>timeOut\<close> is a \<open>time.Duration\<close>, a count of nanoseconds; it never exceeds 64 seconds
  here. The durations given to \<open>time.AfterFunc\<close> and \<open>rt.Reset\<close> are collected in order.
\<close>

datatype wake = wakerForNotification bool | wakerForNewSegment "segment list" | wakerForResend

datatype exec_exit = Returned "error option" | Parked

definition Second :: int where
  "Second = 1000000000"

record 'x exec =
  timeOut :: int
  armed :: "int list"
  x_hs :: handshake
  x_ep :: "'x endpoint"

fun execute_loop :: "wake list \<Rightarrow> 'x exec \<Rightarrow> (panic + exec_exit \<times> 'x exec) option" where
  "execute_loop [] x =
     (if state (x_hs x) \<noteq> handshakeCompleted then Some (Inr (Parked, x))
      else Some (Inr (Returned None, x)))"
| "execute_loop (w # ws) x =
     (if state (x_hs x) \<noteq> handshakeCompleted then
        (case w of
           wakerForResend \<Rightarrow>
             (let x1 = x\<lparr>timeOut := timeOut x * 2\<rparr>
              in if timeOut x1 > 60 * Second then Some (Inr (Returned (Some ErrTimeout), x1))
                 else
                   execute_loop ws
                     (x1\<lparr>armed := armed x1 @ [timeOut x1],
                         x_ep := sendSynTCP (flags (x_hs x1)) (iss (x_hs x1)) (ackNum (x_hs x1))
                                 (rcvWnd (x_hs x1)) (rcvWndScale (x_hs x1)) (x_ep x1)\<rparr>))
         | wakerForNotification close \<Rightarrow>
             if close then Some (Inr (Returned (Some ErrAborted), x))
             else execute_loop ws x
         | wakerForNewSegment segs \<Rightarrow>
             (case processSegments (x_hs x)
                     ((x_ep x)\<lparr>segmentQueue := segmentQueue (x_ep x) @ segs\<rparr>) of
                None \<Rightarrow> None
              | Some (Inl p) \<Rightarrow> Some (Inl p)
              | Some (Inr (Some err, h1, ep1)) \<Rightarrow>
                  Some (Inr (Returned (Some err), x\<lparr>x_hs := h1, x_ep := ep1\<rparr>))
              | Some (Inr (None, h1, ep1)) \<Rightarrow> execute_loop ws (x\<lparr>x_hs := h1, x_ep := ep1\<rparr>)))
      else Some (Inr (Returned None, x)))"

definition execute ::
  "wake list \<Rightarrow> handshake \<Rightarrow> 'x endpoint \<Rightarrow> (panic + exec_exit \<times> 'x exec) option" where
  "execute ws h e =
     execute_loop ws
       \<lparr>timeOut = Second, armed = [Second], x_hs = h,
        x_ep = sendSynTCP (flags h) (iss h) (ackNum h) (rcvWnd h) (rcvWndScale h) e\<rparr>"

text \<open>
  When nothing else wakes the goroutine, each resend wake comes as the timer fires and the
  timer is set again at that moment, so the wakes come at the running sums of the durations.
\<close>

definition fireTimes :: "int list \<Rightarrow> int list" where
  "fireTimes ds = map (\<lambda>k. sum_list (take (Suc k) ds)) [0..<length ds]"

subsection \<open>The handlers of the established connection\<close>

text \<open>
  The methods of the sender and of the receiver that the handlers call are outside the
  sources; they are parameters, each a function on the endpoint (the sender and the receiver
  hold a pointer to it).
\<close>

record 'x engines =
  snd_sendData :: "'x endpoint \<Rightarrow> 'x endpoint"
  snd_sendAck :: "'x endpoint \<Rightarrow> 'x endpoint"
  snd_handleRcvdSegment :: "segment \<Rightarrow> 'x endpoint \<Rightarrow> 'x endpoint"
  rcv_handleRcvdSegment :: "segment \<Rightarrow> 'x endpoint \<Rightarrow> 'x endpoint"
  rcv_acceptable :: "'x endpoint \<Rightarrow> seqnum_Value \<Rightarrow> seqnum_Size \<Rightarrow> bool"

definition handleWrite :: "'x engines \<Rightarrow> 'x endpoint \<Rightarrow> bool \<times> 'x endpoint" where
  "handleWrite eng e =
     (if snd_closed (ep_snd e) then (True, e)
      else
        (let first = (case sndQueue e of [] \<Rightarrow> None | x # xs \<Rightarrow> Some x);
             e1 = (if first \<noteq> None
                   then e\<lparr>ep_snd := (ep_snd e)\<lparr>writeList := writeList (ep_snd e) @ sndQueue e,
                                         sndNxtList := sndNxtList (ep_snd e) + sndBufInQueue e\<rparr>,
                          sndQueue := [],
                          sndBufInQueue := 0\<rparr>
                   else e);
             e2 = (if writeNext (ep_snd e1) = None
                   then e1\<lparr>ep_snd := (ep_snd e1)\<lparr>writeNext := first\<rparr>\<rparr>
                   else e1)
         in (True, snd_sendData eng e2)))"

definition handleClose :: "'x engines \<Rightarrow> 'x endpoint \<Rightarrow> bool \<times> 'x endpoint" where
  "handleClose eng e =
     (if snd_closed (ep_snd e) then (True, e)
      else
        (let e1 = snd (handleWrite eng e);
             e2 = e1\<lparr>ep_snd := (ep_snd e1)\<lparr>snd_closed := True,
                                     sndNxtList := sndNxtList (ep_snd e1) + 1\<rparr>\<rparr>
         in (True, snd_sendData eng e2)))"

definition resetConnection :: "error \<Rightarrow> 'x endpoint \<Rightarrow> 'x endpoint" where
  "resetConnection err e =
     (sendRaw (flagAck OR flagRst) (sndUna (ep_snd e)) (rcvNxt (ep_rcv e)) 0 e)
       \<lparr>ep_state := stateError, hardError := Some err\<rparr>"

text \<open>
  The body of the loop of \<open>handleSegments\<close> for one dequeued segment \<open>s\<close>, on the endpoint
  from whose queue it was taken: \<open>Inl\<close> is the \<open>return false\<close> of the reset path,
  \<open>Inr\<close> the endpoint with which the loop goes on. Reference counts and locks are not
  modelled.
\<close>

definition handleSegments_body ::
  "'x engines \<Rightarrow> segment \<Rightarrow> 'x endpoint \<Rightarrow> 'x endpoint + 'x endpoint" where
  "handleSegments_body eng s e =
     (if flagIsSet s flagRst then
        (if rcv_acceptable eng e (sequenceNumber s) 0
         then Inl (e\<lparr>ep_state := stateError, hardError := Some ErrConnectionReset\<rparr>)
         else Inr e)
      else if flagIsSet s flagAck then
        (let s1 = s\<lparr>window := push_bit (unat (snd_sndWndScale (ep_snd e))) (window s)\<rparr>;
             e1 = rcv_handleRcvdSegment eng s1 e;
             e2 = snd_handleRcvdSegment eng s1 e1
         in Inr e2)
      else Inr e)"

text \<open>
  The loop of \<open>handleSegments\<close>, counted by the passes still allowed. The result is
  \<open>Inl\<close> for \<open>return false\<close>; otherwise the value of \<open>checkRequeue\<close> and the endpoint.
\<close>

fun handleSegments_loop ::
  "'x engines \<Rightarrow> nat \<Rightarrow> 'x endpoint \<Rightarrow> 'x endpoint + bool \<times> 'x endpoint" where
  "handleSegments_loop eng 0 e = Inr (True, e)"
| "handleSegments_loop eng (Suc n) e =
     (case segmentQueue e of
        [] \<Rightarrow> Inr (False, e)
      | s # q \<Rightarrow>
          (case handleSegments_body eng s (e\<lparr>segmentQueue := q\<rparr>) of
             Inl e1 \<Rightarrow> Inl e1
           | Inr e1 \<Rightarrow> handleSegments_loop eng n e1))"

definition handleSegments :: "'x engines \<Rightarrow> 'x endpoint \<Rightarrow> bool \<times> 'x endpoint" where
  "handleSegments eng e =
     (case handleSegments_loop eng maxSegmentsPerWake e of
        Inl e1 \<Rightarrow> (False, e1)
      | Inr (checkRequeue, e1) \<Rightarrow>
          (let e2 = (if checkRequeue \<and> segmentQueue e1 \<noteq> []
                     then e1\<lparr>sleepHeap := Assert (newSegmentWaker e1) (sleepHeap e1)\<rparr>
                     else e1);
               e3 = (if rcvNxt (ep_rcv e2) \<noteq> maxSentAck (ep_snd e2) then snd_sendAck eng e2 else e2)
           in (True, e3)))"

subsection \<open>Concrete values\<close>

text \<open>
  The theorems below are exercised on these values: a store of unbound wakers and idle
  sleepers; the same store with waker 3 bound to sleeper 1, whose goroutine 77 is parked; a
  fresh endpoint whose \<open>engine\<close> is a log of the calls made to the sender and the receiver;
  an active handshake as \<open>newHandshake\<close> leaves it after drawing the bytes 7, 0, 0, 0; the same
  handshake in the SYN-RCVD state; a segment without flags or options; and a sender and
  receiver that only write to the log (the receiver accepts the sequence number \<open>rcvNxt\<close>).
\<close>

definition heap0 :: sleep_heap where
  "heap0 =
     \<lparr>wakers = (\<lambda>a. \<lparr>w_s = SNil, w_next = WNil, w_id = 0\<rparr>),
      sleepers = (\<lambda>a. \<lparr>sharedList = WNil, localList = WNil, waitingG = 0\<rparr>),
      readied = []\<rparr>"

definition heap1 :: sleep_heap where
  "heap1 =
     heap0\<lparr>wakers := (wakers heap0)(3 := \<lparr>w_s = SleeperAt 1, w_next = WNil, w_id = 2\<rparr>),
           sleepers := (sleepers heap0)(1 := \<lparr>sharedList = WNil, localList = WNil,
                                              waitingG = 77\<rparr>)\<rparr>"

definition endpoint0 :: "nat list endpoint" where
  "endpoint0 =
     \<lparr>ep_state = stateConnecting, hardError = None, segmentQueue = [], sndQueue = [],
      sndBufInQueue = 0,
      ep_snd = \<lparr>snd_closed = False, writeList = [], writeNext = None, sndNxtList = 0,
                sndUna = 0, maxSentAck = 0, snd_sndWndScale = 2\<rparr>,
      ep_rcv = \<lparr>rcv_closed = False, rcvNxt = 0, pendingBufSize = 0\<rparr>,
      engine = [], sleepHeap = heap0, newSegmentWaker = 0, randSource = [], sent = []\<rparr>"

definition handshake0 :: handshake where
  "handshake0 =
     \<lparr>state = handshakeSynSent, active = True, flags = flagSyn, ackNum = 0, iss = 7,
      rcvWnd = 0x20000, sndWnd = 0, mss = 0, sndWndScale = 0, rcvWndScale = 2\<rparr>"

definition handshake1 :: handshake where
  "handshake1 =
     handshake0\<lparr>state := handshakeSynRcvd, flags := flagSyn OR flagAck, ackNum := 101,
                mss := 1460\<rparr>"

definition segment0 :: segment where
  "segment0 =
     \<lparr>s_flags = 0, sequenceNumber = 500, ackNumber = 0, window = 0x1000, options = [],
      dataSize = 0\<rparr>"

definition engines0 :: "nat list engines" where
  "engines0 =
     \<lparr>snd_sendData = (\<lambda>e. e\<lparr>engine := engine e @ [1]\<rparr>),
      snd_sendAck = (\<lambda>e. e\<lparr>engine := engine e @ [2]\<rparr>),
      snd_handleRcvdSegment = (\<lambda>s e. e\<lparr>engine := engine e @ [3, unat (window s)]\<rparr>),
      rcv_handleRcvdSegment = (\<lambda>s e. e\<lparr>engine := engine e @ [4, unat (window s)]\<rparr>),
      rcv_acceptable = (\<lambda>e sq sz. sq = rcvNxt (ep_rcv e))\<rparr>"

section \<open>Properties\<close>

subsection \<open>The window scale\<close>

lemma unat_double_max:
  assumes "unat (mx :: 32 word) = 65535 * 2 ^ n" "n < 14"
  shows "unat (push_bit 1 mx) = 65535 * 2 ^ Suc n"
proof -
  have "(2::nat) ^ n \<le> 2 ^ 13" using assms(2) by (intro power_increasing) auto
  then have "unat mx * 2 < 2 ^ 32" using assms(1) by simp
  then show ?thesis using assms(1)
    by (simp add: push_bit_eq_mult unat_word_ariths)
qed

text \<open>
  What the loop returns from a state where \<open>max = 0xffff << s\<close> and every smaller shift is
  below the window.
\<close>

lemma findWndScale_loop_char:
  "0 \<le> s \<Longrightarrow> s \<le> 14 \<Longrightarrow> unat mx = 65535 * 2 ^ nat s \<Longrightarrow>
   (\<forall>j<nat s. 65535 * 2 ^ j < unat wnd) \<Longrightarrow>
   (let r = findWndScale_loop wnd mx s in
      s \<le> r \<and> r \<le> 14 \<and> (\<forall>j<nat r. 65535 * 2 ^ j < unat wnd) \<and>
      (r < 14 \<longrightarrow> unat wnd \<le> 65535 * 2 ^ nat r))"
proof (induction wnd mx s rule: findWndScale_loop.induct)
  case (1 wnd mx s)
  show ?case
  proof (cases "wnd > mx \<and> s < maxWndScale")
    case True
    then have s14: "s < 14" by (simp add: maxWndScale_def)
    have n: "nat (s + 1) = Suc (nat s)" using 1(2) by simp
    have a: "unat (push_bit 1 mx) = 65535 * 2 ^ nat (s + 1)"
      using unat_double_max[of mx "nat s"] 1(4) s14 1(2) n by simp
    have b: "\<forall>j<nat (s + 1). 65535 * 2 ^ j < unat wnd"
    proof (intro allI impI)
      fix j assume "j < nat (s + 1)"
      then have "j < nat s \<or> j = nat s" using n by auto
      then show "65535 * 2 ^ j < unat wnd"
        using 1(5) True 1(4) by (auto simp: word_less_nat_alt)
    qed
    have "let r = findWndScale_loop wnd (push_bit 1 mx) (s + 1) in
      s + 1 \<le> r \<and> r \<le> 14 \<and> (\<forall>j<nat r. 65535 * 2 ^ j < unat wnd) \<and>
      (r < 14 \<longrightarrow> unat wnd \<le> 65535 * 2 ^ nat r)"
      using 1(1)[OF True _ _ a b] 1(2) s14 by simp
    then show ?thesis using True by (subst findWndScale_loop.simps) (simp add: Let_def)
  next
    case False
    then have "findWndScale_loop wnd mx s = s" by (subst findWndScale_loop.simps) auto
    moreover have "s < 14 \<longrightarrow> unat wnd \<le> 65535 * 2 ^ nat s"
      using False 1(4) by (auto simp: maxWndScale_def word_less_nat_alt not_less)
    ultimately show ?thesis using 1(2,3,5) by (simp add: Let_def)
  qed
qed

lemma Least_shift_eq:
  fixes w c :: nat
  assumes "\<forall>j<r. c * 2 ^ j < w" "w \<le> c * 2 ^ r"
  shows "(LEAST k. w \<le> c * 2 ^ k) = r"
proof (rule Least_equality)
  show "w \<le> c * 2 ^ r" by fact
next
  fix y assume y: "w \<le> c * 2 ^ y"
  show "r \<le> y"
  proof (rule ccontr)
    assume "\<not> r \<le> y"
    then have "c * 2 ^ y < w" using assms(1) by simp
    with y show False by simp
  qed
qed

lemma Least_shift_ge:
  fixes w c :: nat
  assumes "\<forall>j<r. c * 2 ^ j < w" "w \<le> c * 2 ^ m"
  shows "r \<le> (LEAST k. w \<le> c * 2 ^ k)"
proof -
  have "w \<le> c * 2 ^ (LEAST k. w \<le> c * 2 ^ k)"
    by (rule LeastI[of "\<lambda>k. w \<le> c * 2 ^ k", OF assms(2)])
  then show ?thesis using assms(1) by (meson not_le)
qed

lemma unat_le_shift17: "unat (w :: 32 word) \<le> 65535 * 2 ^ 17"
proof -
  have "unat w < 2 ^ 32" using unsigned_less[of w] by simp
  then show ?thesis by simp
qed

lemma Least_shift_small:
  assumes "(w :: 32 word) < 0x10000"
  shows "(LEAST k. unat w \<le> 65535 * 2 ^ k) = 0"
proof -
  have "unat w \<le> 65535 * 2 ^ 0" using assms by (simp add: word_less_nat_alt)
  then show ?thesis by (intro Least_shift_eq) auto
qed

lemma findWndScale_eq_min:
  "findWndScale w = min (int (LEAST k. unat w \<le> 65535 * 2 ^ k)) 14"
proof (cases "w < 0x10000")
  case True
  then show ?thesis using Least_shift_small[OF True] by (simp add: findWndScale_def)
next
  case False
  define r where "r = findWndScale_loop w 0xffff 0"
  have c: "0 \<le> r \<and> r \<le> 14 \<and> (\<forall>j<nat r. 65535 * 2 ^ j < unat w) \<and>
      (r < 14 \<longrightarrow> unat w \<le> 65535 * 2 ^ nat r)"
    using findWndScale_loop_char[of 0 "0xffff" w] by (simp add: Let_def r_def)
  have ge: "nat r \<le> (LEAST k. unat w \<le> 65535 * 2 ^ k)"
    using c Least_shift_ge[OF _ unat_le_shift17, of "nat r" w] by blast
  show ?thesis
  proof (cases "r < 14")
    case True
    then have "(LEAST k. unat w \<le> 65535 * 2 ^ k) = nat r"
      using c by (intro Least_shift_eq) auto
    then show ?thesis using c True False by (simp add: findWndScale_def r_def)
  next
    case r14: False
    then have "r = 14" using c by simp
    then show ?thesis using ge False by (simp add: findWndScale_def r_def)
  qed
qed

lemma findWndScale_examples:
  "findWndScale 0xFFFF = 0" "findWndScale 0x10000 = 1" "findWndScale 0x7FFFFFFF = 14"
  by (simp_all add: findWndScale_def findWndScale_loop.simps maxWndScale_def)

text \<open>
  Claim C8. For every receive window \<open>wnd\<close>, \<open>findWndScale wnd\<close> is \<open>min k 14\<close>,
  where \<open>k\<close> is the least natural number with \<open>wnd \<le> 0xFFFF * 2 ^ k\<close> (the shift taken
  over the integers); \<open>k\<close> is 0 when \<open>wnd < 0x10000\<close>; and the scale is 0 for \<open>0xFFFF\<close>,
  1 for \<open>0x10000\<close> and 14 for \<open>0x7FFFFFFF\<close>.
\<close>

theorem findWndScale_min_shift:
  "findWndScale wnd = min (int (LEAST k. unat wnd \<le> 0xFFFF * 2 ^ k)) 14
   \<and> (wnd < 0x10000 \<longrightarrow> (LEAST k. unat wnd \<le> 0xFFFF * 2 ^ k) = 0)
   \<and> findWndScale 0xFFFF = 0 \<and> findWndScale 0x10000 = 1 \<and> findWndScale 0x7FFFFFFF = 14"
  using findWndScale_eq_min[of wnd] Least_shift_small[of wnd] findWndScale_examples
  by simp

theorem findWndScale_min_shift_witness:
  "(5 :: 32 word) < 0x10000 \<and> findWndScale 5 = 0
   \<and> (LEAST k. unat (5 :: 32 word) \<le> 0xFFFF * 2 ^ k) = 0"
  using findWndScale_min_shift[of 5] by simp

subsection \<open>The SYN-SENT state\<close>

lemma flagIsSet_update:
  "flagIsSet (x\<lparr>s_flags := f\<rparr>) g = (f AND g \<noteq> 0)"
  by (simp add: flagIsSet_def)

lemmas flag_defs = flagFin_def flagSyn_def flagRst_def flagAck_def

lemmas option_kind_defs = TCPOptionEOL_def TCPOptionNOP_def TCPOptionMSS_def TCPOptionWS_def


text \<open>
  Claim C7. In the SYN-SENT state a segment with RST makes the handshake fail with
  \<open>ErrConnectionRefused\<close> if and only if it also has ACK and its ack number is \<open>iss + 1\<close>;
  any other RST segment returns no error, leaves the handshake as it was and leaves the
  endpoint as it was, so that nothing is sent.
\<close>

theorem synSentState_rst:
  "flagIsSet s flagRst \<Longrightarrow>
     ((\<exists>h' e'. synSentState s h e = Some (Inr (Some ErrConnectionRefused, h', e')))
        \<longleftrightarrow> flagIsSet s flagAck \<and> ackNumber s = iss h + 1)
     \<and> (\<not> (flagIsSet s flagAck \<and> ackNumber s = iss h + 1)
          \<longrightarrow> synSentState s h e = Some (Inr (None, h, e)))"
  by (simp add: synSentState_def)

theorem synSentState_rst_witness:
  "flagIsSet (segment0\<lparr>s_flags := flagRst\<rparr>) flagRst
   \<and> \<not> (flagIsSet (segment0\<lparr>s_flags := flagRst\<rparr>) flagAck
          \<and> ackNumber (segment0\<lparr>s_flags := flagRst\<rparr>) = iss handshake0 + 1)
   \<and> synSentState (segment0\<lparr>s_flags := flagRst\<rparr>) handshake0 endpoint0
        = Some (Inr (None, handshake0, endpoint0))
   \<and> flagIsSet (segment0\<lparr>s_flags := flagRst OR flagAck, ackNumber := 8\<rparr>) flagRst
   \<and> (\<exists>h' e'. synSentState (segment0\<lparr>s_flags := flagRst OR flagAck, ackNumber := 8\<rparr>)
                  handshake0 endpoint0 = Some (Inr (Some ErrConnectionRefused, h', e')))"
  using synSentState_rst[of "segment0\<lparr>s_flags := flagRst\<rparr>" handshake0 endpoint0]
    synSentState_rst[of "segment0\<lparr>s_flags := flagRst OR flagAck, ackNumber := 8\<rparr>"
      handshake0 endpoint0]
  by (simp add: flagIsSet_def flag_defs handshake0_def)



subsection \<open>The SYN-RCVD state\<close>

text \<open>
  Claim C1, as the code has it. In the SYN-RCVD state, for a segment that has no RST, passes
  \<open>checkAck\<close>, has SYN, and whose sequence number differs from \<open>ackNum - 1\<close>:
  \<open>synRcvdState\<close> sends RST|ACK with sequence number the segment's ack number if ACK is set
  and 0 otherwise, and ack number the segment's sequence number plus its logical length. Then
  a passive handshake fails with \<open>ErrInvalidEndpointState\<close> and is left as it was. An active
  handshake draws four random bytes; when the draw succeeds it goes to the state
  \<open>handshakeSynSent\<close> with \<open>flags = SYN\<close>, \<open>ackNum = 0\<close>, \<open>mss = 0\<close> and the new \<open>iss\<close>
  (every other field, \<open>rcvWnd\<close>, \<open>rcvWndScale\<close> and \<open>sndWndScale\<close> among them, is kept),
  sends a SYN with the new \<open>iss\<close> and ack number 0, and returns no error; when the draw fails
  it returns that error and the handshake is left as it was.
\<close>

theorem synRcvdState_second_syn:
  assumes "\<not> flagIsSet s flagRst" and "fst (checkAck s h e)"
    and "flagIsSet s flagSyn" and "sequenceNumber s \<noteq> ackNum h - 1"
  shows "(\<not> active h \<longrightarrow>
            synRcvdState s h e =
              (Some ErrInvalidEndpointState, h,
               e\<lparr>sent := sent e @
                  [SendRaw (flagRst OR flagAck) (if flagIsSet s flagAck then ackNumber s else 0)
                     (sequenceNumber s + logicalLen s) 0]\<rparr>))
       \<and> (active h \<longrightarrow> randSource e = RandBytes b0 b1 b2 b3 # rs \<longrightarrow>
            synRcvdState s h e =
              (None,
               h\<lparr>state := handshakeSynSent, flags := flagSyn, ackNum := 0, mss := 0,
                 iss := ucast b0 OR push_bit 8 (ucast b1) OR push_bit 16 (ucast b2)
                          OR push_bit 24 (ucast b3)\<rparr>,
               e\<lparr>randSource := rs,
                 sent := sent e @
                  [SendRaw (flagRst OR flagAck) (if flagIsSet s flagAck then ackNumber s else 0)
                     (sequenceNumber s + logicalLen s) 0,
                   SendSynTCP flagSyn
                     (ucast b0 OR push_bit 8 (ucast b1) OR push_bit 16 (ucast b2)
                        OR push_bit 24 (ucast b3))
                     0 (rcvWnd h) (rcvWndScale h)]\<rparr>))
       \<and> (active h \<longrightarrow> randSource e = RandFailed # rs \<longrightarrow>
            synRcvdState s h e =
              (Some ErrRandRead, h,
               e\<lparr>randSource := rs,
                 sent := sent e @
                  [SendRaw (flagRst OR flagAck) (if flagIsSet s flagAck then ackNumber s else 0)
                     (sequenceNumber s + logicalLen s) 0]\<rparr>))"
  using assms
  by (auto simp: synRcvdState_def checkAck_def sendRaw_def sendSynTCP_def resetState_def
      rand_Read_def seqnum_Add_def Let_def split: if_splits prod.splits)

lemma second_syn_premises:
  "\<not> flagIsSet (segment0\<lparr>s_flags := flagSyn\<rparr>) flagRst"
  "fst (checkAck (segment0\<lparr>s_flags := flagSyn\<rparr>) hx ex)"
  "flagIsSet (segment0\<lparr>s_flags := flagSyn\<rparr>) flagSyn"
  "\<not> flagIsSet (segment0\<lparr>s_flags := flagSyn\<rparr>) flagAck"
  "logicalLen (segment0\<lparr>s_flags := flagSyn\<rparr>) = 1"
  by (simp_all add: flagIsSet_def flag_defs checkAck_def logicalLen_def segment0_def)

theorem synRcvdState_second_syn_witness:
  "\<not> flagIsSet (segment0\<lparr>s_flags := flagSyn\<rparr>) flagRst
   \<and> flagIsSet (segment0\<lparr>s_flags := flagSyn\<rparr>) flagSyn
   \<and> sequenceNumber (segment0\<lparr>s_flags := flagSyn\<rparr>) \<noteq> ackNum handshake1 - 1
   \<and> fst (checkAck (segment0\<lparr>s_flags := flagSyn\<rparr>) handshake1
             (endpoint0\<lparr>randSource := [RandBytes 9 0 0 0]\<rparr>))
   \<and> active handshake1
   \<and> synRcvdState (segment0\<lparr>s_flags := flagSyn\<rparr>) handshake1
        (endpoint0\<lparr>randSource := [RandBytes 9 0 0 0]\<rparr>)
      = (None,
         handshake1\<lparr>state := handshakeSynSent, flags := flagSyn, ackNum := 0, mss := 0,
                    iss := 9\<rparr>,
         endpoint0\<lparr>randSource := [],
                   sent := [SendRaw (flagRst OR flagAck) 0 501 0,
                            SendSynTCP flagSyn 9 0 0x20000 2]\<rparr>)
   \<and> \<not> active (handshake1\<lparr>active := False\<rparr>)
   \<and> synRcvdState (segment0\<lparr>s_flags := flagSyn\<rparr>) (handshake1\<lparr>active := False\<rparr>) endpoint0
      = (Some ErrInvalidEndpointState, handshake1\<lparr>active := False\<rparr>,
         endpoint0\<lparr>sent := [SendRaw (flagRst OR flagAck) 0 501 0]\<rparr>)"
proof -
  let ?s = "segment0\<lparr>s_flags := flagSyn\<rparr>"
  let ?e = "endpoint0\<lparr>randSource := [RandBytes 9 0 0 0]\<rparr>"
  let ?p = "handshake1\<lparr>active := False\<rparr>"
  have n: "sequenceNumber ?s \<noteq> ackNum handshake1 - 1" "sequenceNumber ?s \<noteq> ackNum ?p - 1"
    by (simp_all add: segment0_def handshake1_def)
  have act: "active handshake1" "\<not> active ?p"
    by (simp_all add: handshake1_def handshake0_def)
  have v: "sequenceNumber ?s + 1 = 501" "rcvWnd handshake1 = 0x20000"
    "rcvWndScale handshake1 = 2" "sent endpoint0 = []"
    by (simp_all add: segment0_def handshake1_def handshake0_def endpoint0_def)
  have "synRcvdState ?s handshake1 ?e
      = (None,
         handshake1\<lparr>state := handshakeSynSent, flags := flagSyn, ackNum := 0, mss := 0,
                    iss := 9\<rparr>,
         endpoint0\<lparr>randSource := [],
                   sent := [SendRaw (flagRst OR flagAck) 0 501 0,
                            SendSynTCP flagSyn 9 0 0x20000 2]\<rparr>)"
    using synRcvdState_second_syn
            [OF second_syn_premises(1) second_syn_premises(2) second_syn_premises(3) n(1),
             of ?e 9 0 0 0 "[]"]
      act(1) second_syn_premises(4,5) v
    by simp
  moreover have "synRcvdState ?s ?p endpoint0
      = (Some ErrInvalidEndpointState, ?p,
         endpoint0\<lparr>sent := [SendRaw (flagRst OR flagAck) 0 501 0]\<rparr>)"
    using synRcvdState_second_syn
            [OF second_syn_premises(1) second_syn_premises(2) second_syn_premises(3) n(2),
             of endpoint0]
      act(2) second_syn_premises(4,5) v
    by simp
  ultimately show ?thesis
    using second_syn_premises(1,2,3) n(1) act by simp
qed

text \<open>
  The claim as the spec states it fails on an active handshake in the SYN-RCVD state that
  receives a second SYN with another sequence number: the handshake does not stay in SYN-RCVD
  but goes back to SYN-SENT, and the segment it sends after the reset is a SYN, not SYN|ACK.
\<close>

theorem synRcvdState_second_syn_counterexample:
  "state handshake1 = handshakeSynRcvd \<and> active handshake1
   \<and> \<not> flagIsSet (segment0\<lparr>s_flags := flagSyn\<rparr>) flagRst
   \<and> flagIsSet (segment0\<lparr>s_flags := flagSyn\<rparr>) flagSyn
   \<and> sequenceNumber (segment0\<lparr>s_flags := flagSyn\<rparr>) \<noteq> ackNum handshake1 - 1
   \<and> fst (synRcvdState (segment0\<lparr>s_flags := flagSyn\<rparr>) handshake1
             (endpoint0\<lparr>randSource := [RandBytes 9 0 0 0]\<rparr>)) = None
   \<and> state (fst (snd (synRcvdState (segment0\<lparr>s_flags := flagSyn\<rparr>) handshake1
                        (endpoint0\<lparr>randSource := [RandBytes 9 0 0 0]\<rparr>))))
       = handshakeSynSent
   \<and> state (fst (snd (synRcvdState (segment0\<lparr>s_flags := flagSyn\<rparr>) handshake1
                        (endpoint0\<lparr>randSource := [RandBytes 9 0 0 0]\<rparr>))))
       \<noteq> handshakeSynRcvd
   \<and> sent (snd (snd (synRcvdState (segment0\<lparr>s_flags := flagSyn\<rparr>) handshake1
                       (endpoint0\<lparr>randSource := [RandBytes 9 0 0 0]\<rparr>))))
       = [SendRaw (flagRst OR flagAck) 0 501 0, SendSynTCP flagSyn 9 0 0x20000 2]
   \<and> SendSynTCP flagSyn 9 0 0x20000 2 \<noteq> SendSynTCP (flagSyn OR flagAck) 9 0 0x20000 2"
  by (simp add: synRcvdState_def checkAck_def sendRaw_def sendSynTCP_def resetState_def
      rand_Read_def seqnum_Add_def Let_def handshake1_def handshake0_def segment0_def
      endpoint0_def logicalLen_def flagIsSet_def flag_defs)

subsection \<open>The retransmission of the SYN\<close>

lemma execute_loop_resend:
  "state (x_hs x) \<noteq> handshakeCompleted \<Longrightarrow>
   execute_loop (wakerForResend # ws) x =
     (if timeOut x * 2 > 60 * Second
      then Some (Inr (Returned (Some ErrTimeout), x\<lparr>timeOut := timeOut x * 2\<rparr>))
      else execute_loop ws
             (x\<lparr>timeOut := timeOut x * 2,
                armed := armed x @ [timeOut x * 2],
                x_ep := sendSynTCP (flags (x_hs x)) (iss (x_hs x)) (ackNum (x_hs x))
                          (rcvWnd (x_hs x)) (rcvWndScale (x_hs x)) (x_ep x)\<rparr>))"
  by (simp add: Let_def)

lemma execute_six_resends:
  assumes "state h \<noteq> handshakeCompleted"
  shows "execute (wakerForResend # wakerForResend # wakerForResend # wakerForResend
            # wakerForResend # wakerForResend # ws) h e =
          Some (Inr (Returned (Some ErrTimeout),
            \<lparr>timeOut = 64 * Second,
             armed = [Second, 2 * Second, 4 * Second, 8 * Second, 16 * Second, 32 * Second],
             x_hs = h,
             x_ep = e\<lparr>sent := sent e @
                      SendSynTCP (flags h) (iss h) (ackNum h) (rcvWnd h) (rcvWndScale h)
                      # replicate 5 (SendSynTCP (flags h) (iss h) (ackNum h) (rcvWnd h)
                                       (rcvWndScale h))\<rparr>\<rparr>))"
  using assms
  by (simp add: execute_def execute_loop_resend Second_def sendSynTCP_def numeral_eq_Suc)

lemma fireTimes_doubling:
  "fireTimes [Second, 2 * Second, 4 * Second, 8 * Second, 16 * Second, 32 * Second]
   = [Second, 3 * Second, 7 * Second, 15 * Second, 31 * Second, 63 * Second]"
  by (simp add: fireTimes_def Second_def upt_rec numeral_eq_Suc)

text \<open>
  Claim C5. The timeout starts at one second. While the handshake is not completed, a resend
  wake doubles the timeout; if the doubled value exceeds 60 seconds \<open>execute\<close> returns
  \<open>ErrTimeout\<close> and sends nothing, otherwise it sets the timer to the doubled value and sends
  the SYN (or SYN|ACK: the handshake's flags) again. With six resend wakes and no other wake
  before them, \<open>execute\<close> returns \<open>ErrTimeout\<close> at the sixth, having sent the initial
  segment and exactly five more, with the timer set to 1, 2, 4, 8, 16 and 32 seconds; the
  timer thus fires 1, 3, 7, 15, 31 and 63 seconds after the start.
\<close>

theorem execute_resend_backoff:
  "(state (x_hs x) \<noteq> handshakeCompleted \<longrightarrow>
      execute_loop (wakerForResend # ws) x =
        (if timeOut x * 2 > 60 * Second
         then Some (Inr (Returned (Some ErrTimeout), x\<lparr>timeOut := timeOut x * 2\<rparr>))
         else execute_loop ws
                (x\<lparr>timeOut := timeOut x * 2,
                   armed := armed x @ [timeOut x * 2],
                   x_ep := sendSynTCP (flags (x_hs x)) (iss (x_hs x)) (ackNum (x_hs x))
                             (rcvWnd (x_hs x)) (rcvWndScale (x_hs x)) (x_ep x)\<rparr>)))
   \<and> (state h \<noteq> handshakeCompleted \<longrightarrow>
        execute (wakerForResend # wakerForResend # wakerForResend # wakerForResend
                   # wakerForResend # wakerForResend # ws) h e =
          Some (Inr (Returned (Some ErrTimeout),
            \<lparr>timeOut = 64 * Second,
             armed = [Second, 2 * Second, 4 * Second, 8 * Second, 16 * Second, 32 * Second],
             x_hs = h,
             x_ep = e\<lparr>sent := sent e @
                      SendSynTCP (flags h) (iss h) (ackNum h) (rcvWnd h) (rcvWndScale h)
                      # replicate 5 (SendSynTCP (flags h) (iss h) (ackNum h) (rcvWnd h)
                                       (rcvWndScale h))\<rparr>\<rparr>)))
   \<and> fireTimes [Second, 2 * Second, 4 * Second, 8 * Second, 16 * Second, 32 * Second]
       = [Second, 3 * Second, 7 * Second, 15 * Second, 31 * Second, 63 * Second]"
  using execute_loop_resend[of x ws] execute_six_resends[of h ws e] fireTimes_doubling
  by blast

theorem execute_resend_backoff_witness:
  "state handshake0 \<noteq> handshakeCompleted
   \<and> state (x_hs \<lparr>timeOut = 32 * Second, armed = [], x_hs = handshake0, x_ep = endpoint0\<rparr>)
        \<noteq> handshakeCompleted
   \<and> execute_loop [wakerForResend]
        \<lparr>timeOut = 32 * Second, armed = [], x_hs = handshake0, x_ep = endpoint0\<rparr>
      = Some (Inr (Returned (Some ErrTimeout),
          \<lparr>timeOut = 64 * Second, armed = [], x_hs = handshake0, x_ep = endpoint0\<rparr>))
   \<and> execute [wakerForResend, wakerForResend, wakerForResend, wakerForResend,
               wakerForResend, wakerForResend] handshake0 endpoint0 =
          Some (Inr (Returned (Some ErrTimeout),
            \<lparr>timeOut = 64 * Second,
             armed = [Second, 2 * Second, 4 * Second, 8 * Second, 16 * Second, 32 * Second],
             x_hs = handshake0,
             x_ep = endpoint0\<lparr>sent := replicate 6 (SendSynTCP flagSyn 7 0 0x20000 2)\<rparr>\<rparr>))"
  using execute_resend_backoff
          [where x = "\<lparr>timeOut = 32 * Second, armed = [], x_hs = handshake0, x_ep = endpoint0\<rparr>"
             and ws = "[]" and h = handshake0 and e = endpoint0]
  by (simp add: handshake0_def endpoint0_def Second_def numeral_eq_Suc)

subsection \<open>Segments of an established connection\<close>

lemma handleSegments_body_cases:
  "(flagIsSet s flagRst \<and> rcv_acceptable eng e (sequenceNumber s) 0 \<longrightarrow>
      handleSegments_body eng s e
        = Inl (e\<lparr>ep_state := stateError, hardError := Some ErrConnectionReset\<rparr>))
   \<and> (\<not> flagIsSet s flagRst \<and> flagIsSet s flagAck \<longrightarrow>
      handleSegments_body eng s e
        = Inr (snd_handleRcvdSegment eng
                 (s\<lparr>window := push_bit (unat (snd_sndWndScale (ep_snd e))) (window s)\<rparr>)
                 (rcv_handleRcvdSegment eng
                    (s\<lparr>window := push_bit (unat (snd_sndWndScale (ep_snd e))) (window s)\<rparr>) e)))
   \<and> (\<not> flagIsSet s flagRst \<and> \<not> flagIsSet s flagAck \<longrightarrow>
      handleSegments_body eng s e = Inr e)"
  by (simp add: handleSegments_body_def Let_def)

lemma handleSegments_loop_pos:
  "0 < n \<Longrightarrow>
   handleSegments_loop eng n e =
     (case segmentQueue e of
        [] \<Rightarrow> Inr (False, e)
      | s # q \<Rightarrow>
          (case handleSegments_body eng s (e\<lparr>segmentQueue := q\<rparr>) of
             Inl e1 \<Rightarrow> Inl e1
           | Inr e1 \<Rightarrow> handleSegments_loop eng (n - 1) e1))"
  by (cases n) (auto split: list.splits sum.splits)

text \<open>
  Claim C4. At any pass of the loop of \<open>handleSegments\<close>, let \<open>s\<close> be the segment at the
  head of the queue and \<open>q\<close> the rest, so that \<open>s\<close> is dequeued. If \<open>s\<close> has RST and the
  receiver accepts \<open>(s.seq, 0)\<close>, the loop ends with the endpoint in state \<open>stateError\<close> and
  hard error \<open>ErrConnectionReset\<close>, and \<open>handleSegments\<close> returns false, which makes the
  driver exit. If \<open>s\<close> has no RST but has ACK, its window is shifted left by the sender's
  \<open>sndWndScale\<close>, the receiver's \<open>handleRcvdSegment\<close> runs on it and then the sender's, and
  the loop goes on. If \<open>s\<close> has neither RST nor ACK, the loop goes on with the endpoint as
  it is after the dequeue: neither the sender nor the receiver is called.
\<close>

theorem handleSegments_dispatch:
  assumes "segmentQueue e = s # q"
  shows
    "(flagIsSet s flagRst \<and> rcv_acceptable eng (e\<lparr>segmentQueue := q\<rparr>) (sequenceNumber s) 0 \<longrightarrow>
        handleSegments_loop eng (Suc n) e
          = Inl (e\<lparr>segmentQueue := q, ep_state := stateError,
                   hardError := Some ErrConnectionReset\<rparr>))
     \<and> (\<not> flagIsSet s flagRst \<and> flagIsSet s flagAck \<longrightarrow>
        handleSegments_loop eng (Suc n) e
          = handleSegments_loop eng n
              (snd_handleRcvdSegment eng
                 (s\<lparr>window := push_bit (unat (snd_sndWndScale (ep_snd e))) (window s)\<rparr>)
                 (rcv_handleRcvdSegment eng
                    (s\<lparr>window := push_bit (unat (snd_sndWndScale (ep_snd e))) (window s)\<rparr>)
                    (e\<lparr>segmentQueue := q\<rparr>))))
     \<and> (\<not> flagIsSet s flagRst \<and> \<not> flagIsSet s flagAck \<longrightarrow>
        handleSegments_loop eng (Suc n) e = handleSegments_loop eng n (e\<lparr>segmentQueue := q\<rparr>))
     \<and> (\<forall>e1. handleSegments_loop eng maxSegmentsPerWake e = Inl e1 \<longrightarrow>
           handleSegments eng e = (False, e1))"
  using assms handleSegments_body_cases[of s eng "e\<lparr>segmentQueue := q\<rparr>"]
  by (simp add: handleSegments_def)

theorem handleSegments_dispatch_witness:
  "segmentQueue (endpoint0\<lparr>segmentQueue := [segment0\<lparr>s_flags := flagRst, sequenceNumber := 0\<rparr>]\<rparr>)
     = [segment0\<lparr>s_flags := flagRst, sequenceNumber := 0\<rparr>]
   \<and> flagIsSet (segment0\<lparr>s_flags := flagRst, sequenceNumber := 0\<rparr>) flagRst
   \<and> rcv_acceptable engines0 endpoint0 0 0
   \<and> handleSegments engines0
        (endpoint0\<lparr>segmentQueue := [segment0\<lparr>s_flags := flagRst, sequenceNumber := 0\<rparr>]\<rparr>)
      = (False, endpoint0\<lparr>ep_state := stateError, hardError := Some ErrConnectionReset\<rparr>)
   \<and> \<not> flagIsSet (segment0\<lparr>s_flags := flagAck\<rparr>) flagRst
   \<and> flagIsSet (segment0\<lparr>s_flags := flagAck\<rparr>) flagAck
   \<and> handleSegments_loop engines0 (Suc 0)
        (endpoint0\<lparr>segmentQueue := [segment0\<lparr>s_flags := flagAck\<rparr>]\<rparr>)
      = Inr (True, endpoint0\<lparr>engine := [4, 0x4000, 3, 0x4000]\<rparr>)
   \<and> \<not> flagIsSet (segment0\<lparr>s_flags := flagSyn\<rparr>) flagRst
   \<and> \<not> flagIsSet (segment0\<lparr>s_flags := flagSyn\<rparr>) flagAck
   \<and> handleSegments_loop engines0 (Suc 0)
        (endpoint0\<lparr>segmentQueue := [segment0\<lparr>s_flags := flagSyn\<rparr>]\<rparr>)
      = Inr (True, endpoint0)"
proof -
  let ?r = "segment0\<lparr>s_flags := flagRst, sequenceNumber := 0\<rparr>"
  let ?a = "segment0\<lparr>s_flags := flagAck\<rparr>"
  let ?y = "segment0\<lparr>s_flags := flagSyn\<rparr>"
  have q0: "endpoint0\<lparr>segmentQueue := []\<rparr> = endpoint0" by (simp add: endpoint0_def)
  have f: "flagIsSet ?r flagRst" "\<not> flagIsSet ?a flagRst" "flagIsSet ?a flagAck"
    "\<not> flagIsSet ?y flagRst" "\<not> flagIsSet ?y flagAck"
    by (simp_all add: flagIsSet_def flag_defs)
  have acc: "rcv_acceptable engines0 endpoint0 0 0"
    by (simp add: engines0_def endpoint0_def)
  have r1: "handleSegments_loop engines0 maxSegmentsPerWake (endpoint0\<lparr>segmentQueue := [?r]\<rparr>)
      = Inl (endpoint0\<lparr>ep_state := stateError, hardError := Some ErrConnectionReset\<rparr>)"
    using f(1) acc
    by (simp add: handleSegments_loop_pos maxSegmentsPerWake_def handleSegments_body_def q0)
  have "handleSegments engines0 (endpoint0\<lparr>segmentQueue := [?r]\<rparr>)
      = (False, endpoint0\<lparr>ep_state := stateError, hardError := Some ErrConnectionReset\<rparr>)"
    using handleSegments_dispatch
            [where e = "endpoint0\<lparr>segmentQueue := [?r]\<rparr>" and s = ?r and q = "[]"
               and eng = engines0 and n = 0]
      r1 by simp
  moreover have "handleSegments_loop engines0 (Suc 0) (endpoint0\<lparr>segmentQueue := [?a]\<rparr>)
      = Inr (True, endpoint0\<lparr>engine := [4, 0x4000, 3, 0x4000]\<rparr>)"
    using handleSegments_dispatch
            [where e = "endpoint0\<lparr>segmentQueue := [?a]\<rparr>" and s = ?a and q = "[]"
               and eng = engines0 and n = 0]
      f(2,3)
    by (simp add: q0) (simp add: engines0_def endpoint0_def segment0_def)
  moreover have "handleSegments_loop engines0 (Suc 0) (endpoint0\<lparr>segmentQueue := [?y]\<rparr>)
      = Inr (True, endpoint0)"
    using handleSegments_dispatch
            [where e = "endpoint0\<lparr>segmentQueue := [?y]\<rparr>" and s = ?y and q = "[]"
               and eng = engines0 and n = 0]
      f(4,5)
    by (simp add: q0)
  ultimately show ?thesis using f acc by simp
qed

subsection \<open>Writes and close on a closed send side\<close>

text \<open>
  Claim C10. When \<open>snd.closed\<close> is set, \<open>handleWrite\<close> and \<open>handleClose\<close> return true
  and leave the whole endpoint as it was: \<open>sndNxtList\<close>, the write list and the send queue
  are untouched and \<open>sendData\<close> is not called. Hence, provided \<open>sendData\<close> does not clear
  \<open>snd.closed\<close>, running \<open>handleClose\<close> a second time gives the endpoint that the first run
  gave: no second FIN is queued.
\<close>

theorem closed_handlers_no_effect:
  "(snd_closed (ep_snd e) \<longrightarrow> handleWrite eng e = (True, e) \<and> handleClose eng e = (True, e))
   \<and> ((\<forall>x. snd_closed (ep_snd x) \<longrightarrow> snd_closed (ep_snd (snd_sendData eng x))) \<longrightarrow>
        handleClose eng (snd (handleClose eng e)) = (True, snd (handleClose eng e)))"
proof -
  have a: "handleWrite eng y = (True, y) \<and> handleClose eng y = (True, y)"
    if "snd_closed (ep_snd y)" for y
    using that by (simp add: handleWrite_def handleClose_def)
  have c: "snd_closed (ep_snd (snd (handleClose eng e)))"
    if p: "\<forall>x. snd_closed (ep_snd x) \<longrightarrow> snd_closed (ep_snd (snd_sendData eng x))"
  proof (cases "snd_closed (ep_snd e)")
    case True
    then show ?thesis by (simp add: handleClose_def)
  next
    case False
    then show ?thesis using p by (simp add: handleClose_def Let_def)
  qed
  show ?thesis using a[of e] a[of "snd (handleClose eng e)"] c by blast
qed

theorem closed_handlers_no_effect_witness:
  "snd_closed (ep_snd (snd (handleClose engines0 endpoint0)))
   \<and> handleWrite engines0 (snd (handleClose engines0 endpoint0))
        = (True, snd (handleClose engines0 endpoint0))
   \<and> handleClose engines0 (snd (handleClose engines0 endpoint0))
        = (True, snd (handleClose engines0 endpoint0))
   \<and> sndNxtList (ep_snd (snd (handleClose engines0 endpoint0))) = 1
   \<and> sndNxtList (ep_snd (snd (handleClose engines0 (snd (handleClose engines0 endpoint0))))) = 1"
proof -
  have p: "\<forall>x. snd_closed (ep_snd x) \<longrightarrow> snd_closed (ep_snd (snd_sendData engines0 x))"
    by (simp add: engines0_def)
  have v: "snd_closed (ep_snd (snd (handleClose engines0 endpoint0)))"
    "sndNxtList (ep_snd (snd (handleClose engines0 endpoint0))) = 1"
    by (simp_all add: handleClose_def handleWrite_def Let_def engines0_def endpoint0_def)
  show ?thesis
    using closed_handlers_no_effect[of "snd (handleClose engines0 endpoint0)" engines0] p v
    by simp
qed

subsection \<open>Assert and Clear\<close>

text \<open>With no other goroutine in between, the compare-and-swap of the push succeeds at once.\<close>

lemma enqueueAssertedWaker_push_eq:
  "enqueueAssertedWaker_push s w h =
     (if sharedList (sleepers h s) = SentinelWaker then (False, h)
      else (True,
            h\<lparr>wakers := (wakers h)(w := (wakers h w)\<lparr>w_next := sharedList (sleepers h s)\<rparr>),
              sleepers := (sleepers h)(s := (sleepers h s)\<lparr>sharedList := WakerAt w\<rparr>)\<rparr>))"
  by (subst enqueueAssertedWaker_push.simps)
     (simp add: CompareAndSwapPointer_sharedList_def Let_def)

lemma enqueueAssertedWaker_wake_wakers:
  "wakers (enqueueAssertedWaker_wake s h) = wakers h"
proof (induction s h rule: enqueueAssertedWaker_wake.induct)
  case (1 s h)
  show ?case
  proof (cases "waitingG (sleepers h s) = 0")
    case True
    then show ?thesis by (subst enqueueAssertedWaker_wake.simps) simp
  next
    case False
    have "wakers (enqueueAssertedWaker_wake s h) =
          wakers (case CompareAndSwapUintptr_waitingG s (waitingG (sleepers h s)) 0 h of
                    (ok, h1) \<Rightarrow>
                      enqueueAssertedWaker_wake s
                        (if ok \<and> waitingG (sleepers h s) \<noteq> preparingG
                         then goready (waitingG (sleepers h s)) h1 else h1))"
      using False by (subst enqueueAssertedWaker_wake.simps) (simp add: Let_def)
    then show ?thesis
      using 1[OF refl False]
      by (auto simp: CompareAndSwapUintptr_waitingG_def goready_def split: prod.splits if_splits)
  qed
qed

lemma enqueueAssertedWaker_w_s:
  "w_s (wakers (enqueueAssertedWaker s w h) v) = w_s (wakers h v)"
  by (simp add: enqueueAssertedWaker_def enqueueAssertedWaker_push_eq
      enqueueAssertedWaker_wake_wakers)

lemma IsAsserted_Assert: "IsAsserted w (Assert w h)"
  by (simp add: IsAsserted_def Assert_def LoadPointer_s_def SwapPointer_s_def
      enqueueAssertedWaker_w_s split: sleeper_ptr.splits)

text \<open>
  Asserting the bound waker 3 of \<open>heap1\<close> puts it on the shared list of sleeper 1 and wakes
  the parked goroutine 77.
\<close>

lemma Assert_heap1:
  "IsAsserted 3 (Assert 3 heap1) \<and> \<not> IsAsserted 3 heap1
   \<and> sharedList (sleepers (Assert 3 heap1) 1) = WakerAt 3
   \<and> waitingG (sleepers (Assert 3 heap1) 1) = 0
   \<and> readied (Assert 3 heap1) = [77]"
  by (simp add: IsAsserted_def Assert_def LoadPointer_s_def SwapPointer_s_def
      enqueueAssertedWaker_def enqueueAssertedWaker_push_eq enqueueAssertedWaker_wake.simps
      CompareAndSwapUintptr_waitingG_def goready_def preparingG_def heap1_def heap0_def Let_def)

text \<open>
  Claim C9, for operations that run with no step of another goroutine in between.
  \<open>Assert\<close> on an asserted waker leaves the store as it is, and \<open>Assert\<close> after \<open>Assert\<close>
  gives the store of a single \<open>Assert\<close>. \<open>Clear\<close> returns true and sets the waker's pointer
  to nil (unbound, not asserted) exactly when the waker was asserted; otherwise it returns
  false and leaves the store as it is. \<open>Clear\<close> right after \<open>Assert\<close> returns true, and
  \<open>IsAsserted\<close> is false afterwards.
\<close>

theorem Waker_Assert_Clear:
  "(IsAsserted w h \<longrightarrow> Assert w h = h)
   \<and> Assert w (Assert w h) = Assert w h
   \<and> Clear w h =
       (if IsAsserted w h
        then (True, h\<lparr>wakers := (wakers h)(w := (wakers h w)\<lparr>w_s := SNil\<rparr>)\<rparr>)
        else (False, h))
   \<and> (fst (Clear w h) \<longleftrightarrow> IsAsserted w h)
   \<and> fst (Clear w (Assert w h))
   \<and> \<not> IsAsserted w (snd (Clear w (Assert w h)))"
proof -
  have a: "Assert w h' = h'" if "IsAsserted w h'" for h'
    using that by (simp add: Assert_def IsAsserted_def)
  have c: "Clear w h' =
       (if IsAsserted w h'
        then (True, h'\<lparr>wakers := (wakers h')(w := (wakers h' w)\<lparr>w_s := SNil\<rparr>)\<rparr>)
        else (False, h'))" for h'
    by (simp add: Clear_def IsAsserted_def CompareAndSwapPointer_s_def LoadPointer_s_def)
  have d: "\<not> IsAsserted w (snd (Clear w h'))" for h'
    by (simp add: c) (simp add: IsAsserted_def LoadPointer_s_def)
  show ?thesis
    using a[of h] a[OF IsAsserted_Assert[of w h]] c[of h] d[of "Assert w h"]
      IsAsserted_Assert[of w h] c[of "Assert w h"]
    by simp
qed

theorem Waker_Assert_Clear_witness:
  "IsAsserted 3 (Assert 3 heap1)
   \<and> Assert 3 (Assert 3 heap1) = Assert 3 heap1
   \<and> fst (Clear 3 (Assert 3 heap1))
   \<and> \<not> IsAsserted 3 (snd (Clear 3 (Assert 3 heap1)))
   \<and> \<not> IsAsserted 3 heap1
   \<and> Clear 3 heap1 = (False, heap1)"
  using Waker_Assert_Clear[of 3 "Assert 3 heap1"] Waker_Assert_Clear[of 3 heap1] Assert_heap1
  by simp

subsection \<open>The option parser\<close>

lemma parseSynOptions_body_zero_length:
  assumes "zero_length_option opts i"
  shows "parseSynOptions_body opts i m w = Inr (Continue i m w)"
  using assms by (simp add: zero_length_option_def parseSynOptions_body_def index_def Let_def)

text \<open>
  A run of the loop that returns never stands at an unknown option with length byte 0 at
  offset 2 or later: there the body goes round the loop without moving.
\<close>

lemma parseSynOptions_loop_returns:
  assumes "parseSynOptions_loop opts i m w = Some y"
  shows "\<not> zero_length_option opts i"
proof (rule parseSynOptions_loop.raw_induct
         [where P = "\<lambda>opts i m w y. \<not> zero_length_option opts i", OF _ assms])
  fix f :: "8 word list \<Rightarrow> nat \<Rightarrow> 16 word \<Rightarrow> int \<Rightarrow> (panic + 16 word \<times> int \<times> bool) option"
    and opts :: "8 word list" and i :: nat and m :: "16 word" and w :: int
    and y :: "panic + 16 word \<times> int \<times> bool"
  assume IH: "\<And>opts i m w y. f opts i m w = Some y \<Longrightarrow> \<not> zero_length_option opts i"
  assume eq: "(if i < length opts
      then case parseSynOptions_body opts i m w of Inl p \<Rightarrow> Some (Inl p)
           | Inr (Continue i1 mss1 ws1) \<Rightarrow> f opts i1 mss1 ws1
           | Inr (Return m w ok) \<Rightarrow> Some (Inr (m, w, ok))
      else Some (Inr (m, w, True))) = Some y"
  show "\<not> zero_length_option opts i"
  proof
    assume a: "zero_length_option opts i"
    then have "parseSynOptions_body opts i m w = Inr (Continue i m w)"
      by (rule parseSynOptions_body_zero_length)
    moreover have "i < length opts" using a by (simp add: zero_length_option_def)
    ultimately have "f opts i m w = Some y" using eq by simp
    then show False using IH a by blast
  qed
qed

lemma parseSynOptions_loop_diverges:
  assumes "zero_length_option opts i"
  shows "parseSynOptions_loop opts i m w = None"
proof (cases "parseSynOptions_loop opts i m w")
  case None
  then show ?thesis .
next
  case (Some y)
  then show ?thesis using parseSynOptions_loop_returns[OF Some] assms by simp
qed

lemma parseSynOptions_loop_NOP:
  "i < length opts \<Longrightarrow> opts ! i = TCPOptionNOP \<Longrightarrow>
   parseSynOptions_loop opts i m w = parseSynOptions_loop opts (Suc i) m w"
  by (subst parseSynOptions_loop.simps)
     (simp add: parseSynOptions_body_def index_def Let_def option_kind_defs)

text \<open>No read of the parser is out of range: a run that returns does not return a panic.\<close>

lemma parseSynOptions_body_no_panic:
  "i < length opts \<Longrightarrow> parseSynOptions_body opts i m w \<noteq> Inl p"
  by (simp add: parseSynOptions_body_def index_def Let_def)

lemma parseSynOptions_loop_no_panic:
  assumes "parseSynOptions_loop opts i m w = Some y"
  shows "y \<noteq> Inl p"
proof (rule parseSynOptions_loop.raw_induct
         [where P = "\<lambda>opts i m w y. y \<noteq> Inl p", OF _ assms])
  fix f :: "8 word list \<Rightarrow> nat \<Rightarrow> 16 word \<Rightarrow> int \<Rightarrow> (panic + 16 word \<times> int \<times> bool) option"
    and opts :: "8 word list" and i :: nat and m :: "16 word" and w :: int
    and y :: "panic + 16 word \<times> int \<times> bool"
  assume IH: "\<And>opts i m w y. f opts i m w = Some y \<Longrightarrow> y \<noteq> Inl p"
  assume eq: "(if i < length opts
      then case parseSynOptions_body opts i m w of Inl p \<Rightarrow> Some (Inl p)
           | Inr (Continue i1 mss1 ws1) \<Rightarrow> f opts i1 mss1 ws1
           | Inr (Return m w ok) \<Rightarrow> Some (Inr (m, w, ok))
      else Some (Inr (m, w, True))) = Some y"
  show "y \<noteq> Inl p"
  proof (cases "i < length opts")
    case True
    show ?thesis
    proof (cases "parseSynOptions_body opts i m w")
      case (Inl q)
      then show ?thesis using parseSynOptions_body_no_panic[OF True] by blast
    next
      case (Inr st)
      then show ?thesis using IH eq True by (cases st) auto
    qed
  next
    case False
    then show ?thesis using eq by auto
  qed
qed

text \<open>
  Claim C2 fails on the code. On the four option bytes NOP, NOP, kind 5, length 0 the parser
  reaches the unknown option at offset 2; the test \<open>i < 2 || i+l > limit\<close> lets the length 0
  through, \<open>i += l\<close> leaves \<open>i\<close> where it is, and the loop never ends: \<open>parseSynOptions\<close>
  does not return.
\<close>

theorem parseSynOptions_never_returns:
  "length [1, 1, 5, 0 :: 8 word] \<le> 40
   \<and> parseSynOptions (segment0\<lparr>options := [1, 1, 5, 0]\<rparr>) = None"
proof -
  have e2: "parseSynOptions_loop [1, 1, 5, 0] (Suc (Suc 0)) 536 (-1) = None"
    by (rule parseSynOptions_loop_diverges)
       (simp add: zero_length_option_def option_kind_defs)
  have e0: "parseSynOptions_loop [1, 1, 5, 0] 0 536 (-1)
        = parseSynOptions_loop [1, 1, 5, 0] (Suc 0) 536 (-1)"
    by (rule parseSynOptions_loop_NOP) (simp_all add: TCPOptionNOP_def)
  have e1: "parseSynOptions_loop [1, 1, 5, 0] (Suc 0) 536 (-1)
        = parseSynOptions_loop [1, 1, 5, 0] (Suc (Suc 0)) 536 (-1)"
    by (rule parseSynOptions_loop_NOP) (simp_all add: TCPOptionNOP_def)
  show ?thesis by (simp add: parseSynOptions_def segment0_def e0 e1 e2)
qed

text \<open>
  Claim C3 fails on the code. The option bytes kind 4, length 2, NOP, NOP hold an unknown
  option of length 2 that ends inside the region, yet the parser returns \<open>ok = false\<close>,
  because the code tests \<open>i < 2\<close> where the claim tests the length. In the other direction,
  at offset 2 of NOP, NOP, kind 5, length 0 the length is below 2, and the body does not
  return: it goes round the loop at the same offset.
\<close>

theorem parseSynOptions_unknown_option:
  "parseSynOptions_body [4, 2, 1, 1] 0 536 (-1) = Inr (Return 0 (-1) False)
   \<and> parseSynOptions (segment0\<lparr>options := [4, 2, 1, 1]\<rparr>) = Some (Inr (0, -1, False))
   \<and> parseSynOptions_body [1, 1, 5, 0] 2 536 (-1) = Inr (Continue 2 536 (-1))"
  by (simp add: parseSynOptions_def parseSynOptions_loop.simps parseSynOptions_body_def
      index_def Let_def option_kind_defs segment0_def)

end
